theory Spec2Isabelle
  imports Main "HOL-Library.Word"
begin

unbundle bit_operations_syntax

section \<open>The process the plugin runs in\<close>

text \<open>
  The plugin is a 32-bit DLL loaded into the game's process (the README asks for the x86
  runtime), so \<open>uintptr_t\<close> and \<open>DWORD\<close> are 32-bit words and \<open>uint8_t\<close> is a byte.
\<close>

type_synonym addr = "32 word"
type_synonym byte = "8 word"
type_synonym dword = "32 word"

text \<open>
  A \<open>std::filesystem::path\<close> by its parts: the root name (such as \<open>C:\<close>, or empty),
  whether a root directory follows it, and the elements of the relative path in order. A
  trailing separator shows as an empty last element.
\<close>

record path =
  root_name :: string
  root_directory :: bool
  relative_path :: "string list"

text \<open>The two levels of \<open>LogLevel\<close> that the source uses.\<close>

datatype LogLevel = Info | Error

text \<open>What the log file holds: the header, then lines with their level.\<close>

datatype log_entry = Header string | Line LogLevel string

text \<open>
  The only exception thrown on the patch path: \<open>THROW_IF_WIN32_BOOL_FALSE\<close> throws
  \<open>wil::ResultException\<close>, a \<open>std::exception\<close>, holding the value of \<open>GetLastError()\<close>.
\<close>

datatype exn = ResultException dword

text \<open>
  The steps of the patch path, recorded in the order they happen: the entry into
  \<open>OverwriteMemory\<close> with its arguments, the system call, and the store through the
  pointer.
\<close>

datatype event =
  OverwriteMemory_call addr byte
| VirtualProtect_call addr nat dword
| Store addr byte

text \<open>The state of \<open>Logger::GetInstance()\<close>, as \<open>Init\<close> leaves it.\<close>

record Logger =
  logFilePath :: path
  logLevel :: LogLevel
  appendMode :: bool

text \<open>
  The process: its memory by address, the protection of each page by page number, the
  thread's last-error value, the logger and the entries written through it in this process,
  the guard of the function-local static \<open>sDirector\<close>, and the recorded steps.
\<close>

record process =
  mem :: "addr \<Rightarrow> byte"
  prot :: "addr \<Rightarrow> dword"
  last_error :: dword
  logger :: Logger
  log_file :: "log_entry list"
  sDirector_constructed :: bool
  trace :: "event list"

text \<open>
  What the plugin takes from outside this file and cannot change:
  \<^item> \<open>GetGameVersion\<close>: the value of \<open>SC4VersionDetection::GetInstance().GetGameVersion()\<close>;
  \<^item> \<open>VirtualProtect_refusal\<close>: the operating system's decision on a protection change,
    from the memory, the page protections and the arguments of the call: \<open>None\<close> when
    it grants the change, \<open>Some e\<close> when it refuses with last-error value \<open>e\<close>;
  \<^item> \<open>what\<close>: the text of \<open>std::exception::what()\<close>;
  \<^item> \<open>GetModuleFileNameW\<close>: the path of the plugin's DLL;
  \<^item> \<open>PLUGIN_VERSION_STR\<close>: the macro of \<open>version.h\<close>.
\<close>

record platform =
  GetGameVersion :: "16 word"
  VirtualProtect_refusal :: "(addr \<Rightarrow> byte) \<Rightarrow> (addr \<Rightarrow> dword) \<Rightarrow> addr \<Rightarrow> nat \<Rightarrow> dword \<Rightarrow> dword option"
  what :: "exn \<Rightarrow> string"
  GetModuleFileNameW :: path
  PLUGIN_VERSION_STR :: string

subsection \<open>Computations that change the process and may throw\<close>

type_synonym 'a prog = "process \<Rightarrow> (exn + 'a) \<times> process"

definition return :: "'a \<Rightarrow> 'a prog" where
  "return x s = (Inr x, s)"

definition throw :: "exn \<Rightarrow> 'a prog" where
  "throw e s = (Inl e, s)"

text \<open>Sequencing: a throw in the first part skips the second; its effects stay.\<close>

definition bind :: "'a prog \<Rightarrow> ('a \<Rightarrow> 'b prog) \<Rightarrow> 'b prog" where
  "bind m f s = (case m s of (Inl e, s') \<Rightarrow> (Inl e, s') | (Inr x, s') \<Rightarrow> f x s')"

text \<open>\<open>try { m } catch (const std::exception& e) { h e }\<close>; every \<open>exn\<close> is one.\<close>

definition try_catch :: "'a prog \<Rightarrow> (exn \<Rightarrow> 'a prog) \<Rightarrow> 'a prog" where
  "try_catch m h s = (case m s of (Inl e, s') \<Rightarrow> h e s' | (Inr x, s') \<Rightarrow> (Inr x, s'))"

subsection \<open>Page protection\<close>

definition PAGE_EXECUTE :: dword where "PAGE_EXECUTE = 0x10"
definition PAGE_EXECUTE_READ :: dword where "PAGE_EXECUTE_READ = 0x20"
definition PAGE_EXECUTE_READWRITE :: dword where "PAGE_EXECUTE_READWRITE = 0x40"
definition PAGE_EXECUTE_WRITECOPY :: dword where "PAGE_EXECUTE_WRITECOPY = 0x80"
definition ERROR_ACCESS_DENIED :: dword where "ERROR_ACCESS_DENIED = 5"

text \<open>Pages are 4096 bytes; a page is named by the address bits above the low twelve.\<close>

definition page_of :: "addr \<Rightarrow> addr" where
  "page_of a = drop_bit 12 a"

definition pages_of_range :: "addr \<Rightarrow> nat \<Rightarrow> addr list" where
  "pages_of_range a n = map (\<lambda>i. page_of (a + of_nat i)) [0..<n]"

text \<open>A protection value allows execution when one of the four execute constants is set.\<close>

definition executable :: "dword \<Rightarrow> bool" where
  "executable p = (p AND 0xF0 \<noteq> 0)"

definition writable_executable :: "dword \<Rightarrow> bool" where
  "writable_executable p = (p = PAGE_EXECUTE_READWRITE)"

text \<open>
  \<open>VirtualProtect(lpAddress, dwSize, flNewProtect, &oldProtect)\<close>. When the system
  grants the change, every page holding a byte of the range gets the new protection and
  the call returns true; when it refuses, no protection changes, the last-error value is
  set and the call returns false. The old protection it hands back is never read by the
  plugin.
\<close>

definition VirtualProtect :: "platform \<Rightarrow> addr \<Rightarrow> nat \<Rightarrow> dword \<Rightarrow> process \<Rightarrow> bool \<times> process" where
  "VirtualProtect env lpAddress dwSize flNewProtect s =
     (let s1 = s\<lparr>trace := trace s @ [VirtualProtect_call lpAddress dwSize flNewProtect]\<rparr> in
      case VirtualProtect_refusal env (mem s) (prot s) lpAddress dwSize flNewProtect of
        Some e \<Rightarrow> (False, s1\<lparr>last_error := e\<rparr>)
      | None \<Rightarrow>
          (True, s1\<lparr>prot := (\<lambda>p. if p \<in> set (pages_of_range lpAddress dwSize)
                                    then flNewProtect else prot s p)\<rparr>))"

text \<open>\<open>THROW_IF_WIN32_BOOL_FALSE(call)\<close>: throws the last error when the call returned false.\<close>

definition THROW_IF_WIN32_BOOL_FALSE :: "(process \<Rightarrow> bool \<times> process) \<Rightarrow> unit prog" where
  "THROW_IF_WIN32_BOOL_FALSE call s =
     (case call s of
        (True, s') \<Rightarrow> return () s'
      | (False, s') \<Rightarrow> throw (ResultException (last_error s')) s')"

text \<open>\<open>*((uint8_t*)address) = newValue\<close>\<close>

definition store :: "addr \<Rightarrow> byte \<Rightarrow> unit prog" where
  "store address newValue s =
     return () (s\<lparr>mem := (mem s)(address := newValue),
                  trace := trace s @ [Store address newValue]\<rparr>)"

definition sizeof_uint8 :: nat where
  "sizeof_uint8 = 1"

definition OverwriteMemory :: "platform \<Rightarrow> addr \<Rightarrow> byte \<Rightarrow> unit prog" where
  "OverwriteMemory env address newValue =
     bind (\<lambda>s. return () (s\<lparr>trace := trace s @ [OverwriteMemory_call address newValue]\<rparr>))
       (\<lambda>_. bind (THROW_IF_WIN32_BOOL_FALSE
                    (VirtualProtect env address sizeof_uint8 PAGE_EXECUTE_READWRITE))
         (\<lambda>_. store address newValue))"

subsection \<open>Formatted text\<close>

text \<open>
  The part of \<open>printf\<close> formatting that the two formatted log lines use: \<open>%d\<close> with an
  \<open>int\<close> and \<open>%s\<close> with a string. Other characters are copied.
\<close>

datatype fmt_arg = ArgInt int | ArgStr string

definition digit_char :: "nat \<Rightarrow> char" where
  "digit_char d = ''0123456789'' ! d"

function dec_nat :: "nat \<Rightarrow> string" where
  "dec_nat n = (if n < 10 then [digit_char n] else dec_nat (n div 10) @ [digit_char (n mod 10)])"
  by pat_completeness auto
termination
  by (relation "measure id") auto

declare dec_nat.simps [simp del]

definition dec :: "int \<Rightarrow> string" where
  "dec i = (if i < 0 then CHR ''-'' # dec_nat (nat (- i)) else dec_nat (nat i))"

text \<open>Reading a string of decimal digits back as a number, to say what \<open>dec\<close> prints.\<close>

definition digit_value :: "char \<Rightarrow> nat" where
  "digit_value c = of_char c - 48"

definition read_nat :: "string \<Rightarrow> nat" where
  "read_nat cs = foldl (\<lambda>acc c. 10 * acc + digit_value c) 0 cs"

fun format_arg :: "char \<Rightarrow> fmt_arg \<Rightarrow> string option" where
  "format_arg d (ArgInt n) = (if d = CHR ''d'' then Some (dec n) else None)"
| "format_arg d (ArgStr t) = (if d = CHR ''s'' then Some t else None)"

fun vformat :: "string \<Rightarrow> fmt_arg list \<Rightarrow> string" where
  "vformat (c # d # cs) (a # as) =
     (if c = CHR ''%'' then
        (case format_arg d a of
           Some t \<Rightarrow> t @ vformat cs as
         | None \<Rightarrow> c # vformat (d # cs) (a # as))
      else c # vformat (d # cs) (a # as))"
| "vformat cs as = cs"

subsection \<open>The logger\<close>

text \<open>
  Modelled from the spec: \<open>Logger.h\<close> and \<open>Logger.cpp\<close> are not among the sources. The
  spec gives \<open>Init\<close> a path, a minimum severity and a flag it calls the append-mode flag;
  the logger keeps the three. What \<open>Init\<close> does with a file that is already at the path
  is not modelled. \<open>log_file\<close> holds what is written through the logger in this process,
  in order: the header line, and the lines with their severity level and text. The spec's
  scenarios have the \<open>Info\<close> line and the \<open>Error\<close> lines appear in the log of a logger
  set up with \<open>LogLevel::Error\<close>.
\<close>

definition Logger_Init :: "path \<Rightarrow> LogLevel \<Rightarrow> bool \<Rightarrow> unit prog" where
  "Logger_Init p level append_flag s =
     return () (s\<lparr>logger := \<lparr>logFilePath = p, logLevel = level, appendMode = append_flag\<rparr>\<rparr>)"

definition WriteLogFileHeader :: "string \<Rightarrow> unit prog" where
  "WriteLogFileHeader header s = return () (s\<lparr>log_file := log_file s @ [Header header]\<rparr>)"

definition WriteLine :: "LogLevel \<Rightarrow> string \<Rightarrow> unit prog" where
  "WriteLine level message s = return () (s\<lparr>log_file := log_file s @ [Line level message]\<rparr>)"

definition WriteLineFormatted :: "LogLevel \<Rightarrow> string \<Rightarrow> fmt_arg list \<Rightarrow> unit prog" where
  "WriteLineFormatted level format args = WriteLine level (vformat format args)"

section \<open>The plugin\<close>

definition kDisableNetworkConstructionSoundsDirectorID :: "32 word" where
  "kDisableNetworkConstructionSoundsDirectorID = 0xC2D4CE53"

definition PluginLogFileName :: string where
  "PluginLogFileName = ''SC4DisableNetworkConstructionSounds.log''"

text \<open>
  \<open>has_filename()\<close> and \<open>is_absolute()\<close> (on Windows a root name and a root directory).
\<close>

definition has_filename :: "path \<Rightarrow> bool" where
  "has_filename p = (relative_path p \<noteq> [] \<and> last (relative_path p) \<noteq> [])"

definition is_absolute :: "path \<Rightarrow> bool" where
  "is_absolute p = (root_name p \<noteq> [] \<and> root_directory p)"

text \<open>
  \<open>parent_path()\<close>: a path with no relative part is its own parent; otherwise the last
  element goes.
\<close>

definition parent_path :: "path \<Rightarrow> path" where
  "parent_path p =
     (if relative_path p = [] then p
      else p\<lparr>relative_path := butlast (relative_path p)\<rparr>)"

text \<open>
  \<open>p /= q\<close>: an absolute \<open>q\<close>, or one with another root name, replaces \<open>p\<close>; a \<open>q\<close>
  with a root directory replaces the root directory and relative part of \<open>p\<close>; an empty
  \<open>q\<close> adds a separator after a filename; otherwise the elements of \<open>q\<close> follow those
  of \<open>p\<close>, taking the place of an empty last element.
\<close>

definition path_append :: "path \<Rightarrow> path \<Rightarrow> path" where
  "path_append p q =
     (if is_absolute q \<or> (root_name q \<noteq> [] \<and> root_name q \<noteq> root_name p) then q
      else if root_directory q then p\<lparr>root_directory := True, relative_path := relative_path q\<rparr>
      else if relative_path q = [] then
        (if has_filename p then p\<lparr>relative_path := relative_path p @ [[]]\<rparr> else p)
      else if relative_path p \<noteq> [] \<and> last (relative_path p) = [] then
        p\<lparr>relative_path := butlast (relative_path p) @ relative_path q\<rparr>
      else p\<lparr>relative_path := relative_path p @ relative_path q\<rparr>)"

definition filename :: "path \<Rightarrow> string" where
  "filename p = (if relative_path p = [] then [] else last (relative_path p))"

text \<open>A name with no separator and no colon, read as a path: one element, no root.\<close>

definition path_of_name :: "string \<Rightarrow> path" where
  "path_of_name n = \<lparr>root_name = [], root_directory = False, relative_path = [n]\<rparr>"

definition GetDllFolderPath :: "platform \<Rightarrow> path" where
  "GetDllFolderPath env = (let temp = GetModuleFileNameW env in parent_path temp)"

definition DisableNetworkConstructionAnimationSounds :: "platform \<Rightarrow> unit prog" where
  "DisableNetworkConstructionAnimationSounds env =
     (let gameVersion = GetGameVersion env in
      if gameVersion = 641 then
        try_catch
          (bind (OverwriteMemory env 0x6071FC 0xEB)
             (\<lambda>_. WriteLine Info ''Disabled the network construction animation sounds.''))
          (\<lambda>e. WriteLineFormatted Error
                  ''Failed to disable the network construction animation sounds: %s''
                  [ArgStr (what env e)])
      else
        WriteLineFormatted Error
          (''Unable to disable the network construction animation sounds. Requires '' @
           ''game version 641, found game version %d.'')
          [ArgInt (uint gameVersion)])"

text \<open>The constructor of the director.\<close>

definition DisableNetworkConstructionSoundsDllDirector :: "platform \<Rightarrow> unit prog" where
  "DisableNetworkConstructionSoundsDllDirector env =
     (let dllFolderPath = GetDllFolderPath env;
          logFilePath = path_append dllFolderPath (path_of_name PluginLogFileName) in
      bind (Logger_Init logFilePath Error False)
        (\<lambda>_. WriteLogFileHeader (''SC4DisableNetworkConstructionSounds v'' @ PLUGIN_VERSION_STR env)))"

definition GetDirectorID :: "32 word" where
  "GetDirectorID = kDisableNetworkConstructionSoundsDirectorID"

definition OnStart :: "platform \<Rightarrow> bool prog" where
  "OnStart env = bind (DisableNetworkConstructionAnimationSounds env) (\<lambda>_. return True)"

text \<open>
  \<open>RZGetCOMDllDirector\<close> holds the director in a function-local static: the first call
  runs the constructor, later calls return the same object.
\<close>

definition RZGetCOMDllDirector :: "platform \<Rightarrow> unit prog" where
  "RZGetCOMDllDirector env s =
     (if sDirector_constructed s then return () s
      else bind (DisableNetworkConstructionSoundsDllDirector env)
             (\<lambda>_ s'. return () (s'\<lparr>sDirector_constructed := True\<rparr>)) s)"

subsection \<open>The host's calls over the life of the process\<close>

text \<open>
  The host reaches the plugin through two calls: it asks for the director, and it calls
  \<open>OnStart\<close> on the director it was given, which it can do only once the director
  exists. A life of the process is a list of such calls.
\<close>

datatype host_call = GetDirector | Start

definition host_step :: "platform \<Rightarrow> process \<Rightarrow> host_call \<Rightarrow> process" where
  "host_step env s c =
     (case c of
        GetDirector \<Rightarrow> snd (RZGetCOMDllDirector env s)
      | Start \<Rightarrow> (if sDirector_constructed s then snd (OnStart env s) else s))"

definition host_run :: "platform \<Rightarrow> host_call list \<Rightarrow> process \<Rightarrow> process" where
  "host_run env calls s = foldl (host_step env) s calls"

subsection \<open>Reading the recorded steps\<close>

fun is_store_at :: "addr \<Rightarrow> event \<Rightarrow> bool" where
  "is_store_at a (Store b v) = (b = a)"
| "is_store_at a (OverwriteMemory_call b v) = False"
| "is_store_at a (VirtualProtect_call b n p) = False"

definition stores_at :: "addr \<Rightarrow> event list \<Rightarrow> nat" where
  "stores_at a tr = length (filter (is_store_at a) tr)"

fun is_patch_call :: "event \<Rightarrow> bool" where
  "is_patch_call (OverwriteMemory_call b v) = True"
| "is_patch_call (Store b v) = False"
| "is_patch_call (VirtualProtect_call b n p) = False"

definition patch_calls :: "event list \<Rightarrow> event list" where
  "patch_calls tr = filter is_patch_call tr"

definition starts :: "host_call list \<Rightarrow> nat" where
  "starts calls = length (filter (\<lambda>c. c = Start) calls)"

definition new_lines :: "process \<Rightarrow> process \<Rightarrow> log_entry list" where
  "new_lines s s' = drop (length (log_file s)) (log_file s')"

subsection \<open>Example platforms and processes\<close>

text \<open>
  A game of version 641 whose system grants the protection change, the same game where
  the system refuses it, and a game of version 640.
\<close>

definition game_641 :: platform where
  "game_641 =
     \<lparr>GetGameVersion = 641,
      VirtualProtect_refusal = (\<lambda>m p a n f. None),
      what = (\<lambda>e. case e of ResultException c \<Rightarrow> ''Win32 error '' @ dec (uint c)),
      GetModuleFileNameW =
        \<lparr>root_name = ''C:'', root_directory = True,
         relative_path = [''SimCity 4'', ''Plugins'', ''SC4DisableNetworkConstructionSounds.dll'']\<rparr>,
      PLUGIN_VERSION_STR = ''1.0.0''\<rparr>"

definition game_641_refusing :: platform where
  "game_641_refusing =
     game_641\<lparr>VirtualProtect_refusal := (\<lambda>m p a n f. Some ERROR_ACCESS_DENIED)\<rparr>"

definition game_640 :: platform where
  "game_640 = game_641\<lparr>GetGameVersion := 640\<rparr>"

text \<open>
  A process at load time: the byte at the patch address is \<open>0x74\<close> (\<open>JZ rel8\<close>), the code
  pages are \<open>PAGE_EXECUTE_READ\<close>, nothing has run yet.
\<close>

definition loaded_process :: process where
  "loaded_process =
     \<lparr>mem = (\<lambda>a. if a = 0x6071FC then 0x74 else 0),
      prot = (\<lambda>p. PAGE_EXECUTE_READ),
      last_error = 0,
      logger = \<lparr>logFilePath = \<lparr>root_name = [], root_directory = False, relative_path = []\<rparr>,
                logLevel = Info, appendMode = False\<rparr>,
      log_file = [],
      sDirector_constructed = False,
      trace = []\<rparr>"

section \<open>Properties\<close>

subsection \<open>What the patch routine does\<close>

lemma pages_of_range_one: "pages_of_range a sizeof_uint8 = [page_of a]"
  by (simp add: pages_of_range_def sizeof_uint8_def)

lemma OverwriteMemory_granted:
  assumes "VirtualProtect_refusal env (mem s) (prot s) a sizeof_uint8 PAGE_EXECUTE_READWRITE = None"
  shows "OverwriteMemory env a v s =
    (Inr (), s\<lparr>mem := (mem s)(a := v),
               prot := (prot s)(page_of a := PAGE_EXECUTE_READWRITE),
               trace := trace s @ [OverwriteMemory_call a v,
                 VirtualProtect_call a sizeof_uint8 PAGE_EXECUTE_READWRITE, Store a v]\<rparr>)"
  using assms
  by (simp add: OverwriteMemory_def bind_def return_def throw_def THROW_IF_WIN32_BOOL_FALSE_def
      VirtualProtect_def store_def pages_of_range_one fun_upd_def cong: if_cong)

lemma OverwriteMemory_refused:
  assumes "VirtualProtect_refusal env (mem s) (prot s) a sizeof_uint8 PAGE_EXECUTE_READWRITE = Some e"
  shows "OverwriteMemory env a v s =
    (Inl (ResultException e),
     s\<lparr>last_error := e,
       trace := trace s @ [OverwriteMemory_call a v,
                 VirtualProtect_call a sizeof_uint8 PAGE_EXECUTE_READWRITE]\<rparr>)"
  using assms
  by (simp add: OverwriteMemory_def bind_def return_def throw_def THROW_IF_WIN32_BOOL_FALSE_def
      VirtualProtect_def store_def)

subsection \<open>The two formatted lines\<close>

lemma vformat_mismatch:
  "vformat (''Unable to disable the network construction animation sounds. Requires '' @
           ''game version 641, found game version %d.'') [ArgInt n] =
   ''Unable to disable the network construction animation sounds. Requires game version 641, found game version '' @ dec n @ ''.''"
  by simp

lemma vformat_failed:
  "vformat ''Failed to disable the network construction animation sounds: %s'' [ArgStr t] =
   ''Failed to disable the network construction animation sounds: '' @ t"
  by simp

lemma digit_value_digit_char:
  assumes "d < 10"
  shows "digit_value (digit_char d) = d"
proof -
  from assms have "d \<in> {0, 1, 2, 3, 4, 5, 6, 7, 8, 9}"
    by auto
  then show ?thesis
    by (auto simp: digit_value_def digit_char_def)
qed

lemma read_nat_snoc: "read_nat (cs @ [c]) = 10 * read_nat cs + digit_value c"
  by (simp add: read_nat_def)

lemma read_nat_dec_nat: "read_nat (dec_nat n) = n"
proof (induction n rule: dec_nat.induct)
  case (1 n)
  show ?case
  proof (cases "n < 10")
    case True
    then show ?thesis
      by (subst dec_nat.simps) (simp add: read_nat_def digit_value_digit_char)
  next
    case False
    then have "read_nat (dec_nat n) =
        10 * read_nat (dec_nat (n div 10)) + digit_value (digit_char (n mod 10))"
      by (subst dec_nat.simps) (simp add: read_nat_snoc)
    also have "\<dots> = 10 * (n div 10) + n mod 10"
      using False by (simp add: "1.IH" digit_value_digit_char)
    finally show ?thesis by simp
  qed
qed

text \<open>The version is printed as its decimal digits: reading them back gives the version.\<close>

lemma read_nat_dec_version: "read_nat (dec (uint (v :: 16 word))) = unat v"
  by (simp add: dec_def read_nat_dec_nat)

lemma dec_640: "dec 640 = ''640''"
  by code_simp

lemma dec_5: "dec 5 = ''5''"
  by code_simp

subsection \<open>The three outcomes of the version-gated patch\<close>

lemma Disable_granted:
  assumes "GetGameVersion env = 641"
    and "VirtualProtect_refusal env (mem s) (prot s) 0x6071FC sizeof_uint8 PAGE_EXECUTE_READWRITE = None"
  shows "DisableNetworkConstructionAnimationSounds env s =
    (Inr (), s\<lparr>mem := (mem s)(0x6071FC := 0xEB),
               prot := (prot s)(page_of 0x6071FC := PAGE_EXECUTE_READWRITE),
               log_file := log_file s @
                 [Line Info ''Disabled the network construction animation sounds.''],
               trace := trace s @ [OverwriteMemory_call 0x6071FC 0xEB,
                 VirtualProtect_call 0x6071FC sizeof_uint8 PAGE_EXECUTE_READWRITE,
                 Store 0x6071FC 0xEB]\<rparr>)"
  using assms
  by (simp add: DisableNetworkConstructionAnimationSounds_def try_catch_def bind_def
      OverwriteMemory_granted WriteLine_def return_def)

lemma Disable_refused:
  assumes "GetGameVersion env = 641"
    and "VirtualProtect_refusal env (mem s) (prot s) 0x6071FC sizeof_uint8 PAGE_EXECUTE_READWRITE = Some e"
  shows "DisableNetworkConstructionAnimationSounds env s =
    (Inr (), s\<lparr>last_error := e,
               log_file := log_file s @
                 [Line Error (''Failed to disable the network construction animation sounds: '' @
                    what env (ResultException e))],
               trace := trace s @ [OverwriteMemory_call 0x6071FC 0xEB,
                 VirtualProtect_call 0x6071FC sizeof_uint8 PAGE_EXECUTE_READWRITE]\<rparr>)"
  using assms
  by (simp add: DisableNetworkConstructionAnimationSounds_def try_catch_def bind_def
      OverwriteMemory_refused WriteLine_def WriteLineFormatted_def return_def
      vformat_failed del: vformat.simps)

lemma Disable_mismatch:
  assumes "GetGameVersion env \<noteq> 641"
  shows "DisableNetworkConstructionAnimationSounds env s =
    (Inr (), s\<lparr>log_file := log_file s @
       [Line Error (''Unable to disable the network construction animation sounds. Requires game version 641, found game version '' @
          dec (uint (GetGameVersion env)) @ ''.'')]\<rparr>)"
  using assms
  by (simp add: DisableNetworkConstructionAnimationSounds_def WriteLine_def
      WriteLineFormatted_def return_def vformat_mismatch del: vformat.simps append.simps)

subsection \<open>The version guard\<close>

text \<open>
  C1: whenever the detected game version is not 641, \<open>OverwriteMemory\<close> is not entered
  (no step of the patch path is recorded, memory and page protections stay as they were),
  and exactly one line is written to the log, at \<open>Error\<close> level, naming the required
  version 641 and the detected version in decimal.
\<close>

theorem version_mismatch_never_patches:
  assumes "GetGameVersion env \<noteq> 641"
  shows "fst (DisableNetworkConstructionAnimationSounds env s) = Inr () \<and>
         mem (snd (DisableNetworkConstructionAnimationSounds env s)) = mem s \<and>
         prot (snd (DisableNetworkConstructionAnimationSounds env s)) = prot s \<and>
         trace (snd (DisableNetworkConstructionAnimationSounds env s)) = trace s \<and>
         new_lines s (snd (DisableNetworkConstructionAnimationSounds env s)) =
           [Line Error (''Unable to disable the network construction animation sounds. Requires game version 641, found game version '' @
              dec (uint (GetGameVersion env)) @ ''.'')]"
  by (simp add: Disable_mismatch [OF assms] new_lines_def)

theorem version_mismatch_never_patches_witness:
  "GetGameVersion game_640 \<noteq> 641 \<and>
   mem (snd (DisableNetworkConstructionAnimationSounds game_640 loaded_process)) 0x6071FC = 0x74 \<and>
   trace (snd (DisableNetworkConstructionAnimationSounds game_640 loaded_process)) = [] \<and>
   new_lines loaded_process (snd (DisableNetworkConstructionAnimationSounds game_640 loaded_process)) =
     [Line Error ''Unable to disable the network construction animation sounds. Requires game version 641, found game version 640.'']"
proof -
  have v: "GetGameVersion game_640 \<noteq> 641"
    by (simp add: game_640_def game_641_def)
  have d: "dec (uint (GetGameVersion game_640)) = ''640''"
    by (simp add: game_640_def game_641_def dec_640)
  show ?thesis
    using v version_mismatch_never_patches [OF v, of loaded_process]
    by (simp add: d loaded_process_def)
qed

subsection \<open>The patch\<close>

text \<open>
  C2: when the detected version is 641 and the system grants the protection change, the
  memory afterwards is the memory before with the byte at \<open>0x6071FC\<close> set to \<open>0xEB\<close>
  and no other location changed; the recorded steps show one store, of that byte at that
  address, and the log gains the line that the sounds were disabled.
\<close>

theorem patch_writes_one_byte:
  assumes "GetGameVersion env = 641"
    and "VirtualProtect_refusal env (mem s) (prot s) 0x6071FC sizeof_uint8 PAGE_EXECUTE_READWRITE = None"
  shows "mem (snd (DisableNetworkConstructionAnimationSounds env s)) = (mem s)(0x6071FC := 0xEB) \<and>
         trace (snd (DisableNetworkConstructionAnimationSounds env s)) =
           trace s @ [OverwriteMemory_call 0x6071FC 0xEB,
                      VirtualProtect_call 0x6071FC 1 PAGE_EXECUTE_READWRITE,
                      Store 0x6071FC 0xEB] \<and>
         new_lines s (snd (DisableNetworkConstructionAnimationSounds env s)) =
           [Line Info ''Disabled the network construction animation sounds.'']"
  by (simp add: Disable_granted [OF assms] new_lines_def sizeof_uint8_def)

theorem patch_writes_one_byte_witness:
  "GetGameVersion game_641 = 641 \<and>
   VirtualProtect_refusal game_641 (mem loaded_process) (prot loaded_process) 0x6071FC
     sizeof_uint8 PAGE_EXECUTE_READWRITE = None \<and>
   mem loaded_process 0x6071FC = 0x74 \<and>
   mem (snd (DisableNetworkConstructionAnimationSounds game_641 loaded_process)) 0x6071FC = 0xEB \<and>
   mem (snd (DisableNetworkConstructionAnimationSounds game_641 loaded_process)) 0x6071FD =
     mem loaded_process 0x6071FD \<and>
   trace (snd (DisableNetworkConstructionAnimationSounds game_641 loaded_process)) =
     [OverwriteMemory_call 0x6071FC 0xEB,
      VirtualProtect_call 0x6071FC 1 PAGE_EXECUTE_READWRITE,
      Store 0x6071FC 0xEB] \<and>
   new_lines loaded_process (snd (DisableNetworkConstructionAnimationSounds game_641 loaded_process)) =
     [Line Info ''Disabled the network construction animation sounds.'']"
proof -
  have v: "GetGameVersion game_641 = 641"
    by (simp add: game_641_def)
  have g: "VirtualProtect_refusal game_641 (mem loaded_process) (prot loaded_process) 0x6071FC
     sizeof_uint8 PAGE_EXECUTE_READWRITE = None"
    by (simp add: game_641_def)
  show ?thesis
    using v g patch_writes_one_byte [OF v g]
    by (simp add: loaded_process_def)
qed

text \<open>
  C3: when the system refuses the protection change with last-error value \<open>e\<close>,
  \<open>OverwriteMemory\<close> throws the exception holding \<open>e\<close>, stores nothing and leaves
  the memory as it was; for version 641 the caller catches the exception, and the log gains
  the \<open>Error\<close> line "Failed to disable the network construction animation sounds: "
  followed by the text of the exception.
\<close>

theorem refused_protection_change_writes_nothing:
  assumes "VirtualProtect_refusal env (mem s) (prot s) 0x6071FC sizeof_uint8 PAGE_EXECUTE_READWRITE = Some e"
  shows "fst (OverwriteMemory env 0x6071FC 0xEB s) = Inl (ResultException e) \<and>
         mem (snd (OverwriteMemory env 0x6071FC 0xEB s)) = mem s \<and>
         stores_at 0x6071FC (trace (snd (OverwriteMemory env 0x6071FC 0xEB s))) =
           stores_at 0x6071FC (trace s) \<and>
         (GetGameVersion env = 641 \<longrightarrow>
            fst (DisableNetworkConstructionAnimationSounds env s) = Inr () \<and>
            mem (snd (DisableNetworkConstructionAnimationSounds env s)) = mem s \<and>
            new_lines s (snd (DisableNetworkConstructionAnimationSounds env s)) =
              [Line Error (''Failed to disable the network construction animation sounds: '' @
                 what env (ResultException e))])"
  by (simp add: OverwriteMemory_refused [OF assms] Disable_refused [OF _ assms]
      new_lines_def stores_at_def)

theorem refused_protection_change_writes_nothing_witness:
  "VirtualProtect_refusal game_641_refusing (mem loaded_process) (prot loaded_process) 0x6071FC
     sizeof_uint8 PAGE_EXECUTE_READWRITE = Some ERROR_ACCESS_DENIED \<and>
   GetGameVersion game_641_refusing = 641 \<and>
   fst (OverwriteMemory game_641_refusing 0x6071FC 0xEB loaded_process) =
     Inl (ResultException ERROR_ACCESS_DENIED) \<and>
   mem (snd (DisableNetworkConstructionAnimationSounds game_641_refusing loaded_process)) 0x6071FC = 0x74 \<and>
   new_lines loaded_process (snd (DisableNetworkConstructionAnimationSounds game_641_refusing loaded_process)) =
     [Line Error ''Failed to disable the network construction animation sounds: Win32 error 5'']"
proof -
  have r: "VirtualProtect_refusal game_641_refusing (mem loaded_process) (prot loaded_process)
     0x6071FC sizeof_uint8 PAGE_EXECUTE_READWRITE = Some ERROR_ACCESS_DENIED"
    by (simp add: game_641_refusing_def)
  have v: "GetGameVersion game_641_refusing = 641"
    by (simp add: game_641_refusing_def game_641_def)
  have w: "what game_641_refusing (ResultException ERROR_ACCESS_DENIED) = ''Win32 error 5''"
    by (simp add: game_641_refusing_def game_641_def ERROR_ACCESS_DENIED_def dec_5)
  show ?thesis
    using r v refused_protection_change_writes_nothing [OF r]
    by (simp add: w loaded_process_def)
qed

text \<open>
  C4: for version 641, \<open>OverwriteMemory\<close> is entered exactly once, with address
  \<open>0x6071FC\<close> and byte \<open>0xEB\<close>, and the line that the sounds were disabled is among
  the lines written if and only if the system grants the protection change.
\<close>

theorem patch_invoked_once_success_line_iff_granted:
  assumes "GetGameVersion env = 641"
  shows "patch_calls (trace (snd (DisableNetworkConstructionAnimationSounds env s))) =
           patch_calls (trace s) @ [OverwriteMemory_call 0x6071FC 0xEB] \<and>
         (Line Info ''Disabled the network construction animation sounds.''
            \<in> set (new_lines s (snd (DisableNetworkConstructionAnimationSounds env s)))) =
         (VirtualProtect_refusal env (mem s) (prot s) 0x6071FC sizeof_uint8 PAGE_EXECUTE_READWRITE = None)"
proof (cases "VirtualProtect_refusal env (mem s) (prot s) 0x6071FC sizeof_uint8 PAGE_EXECUTE_READWRITE")
  case None
  then show ?thesis
    by (simp add: Disable_granted [OF assms None] new_lines_def patch_calls_def)
next
  case (Some e)
  then show ?thesis
    by (simp add: Disable_refused [OF assms Some] new_lines_def patch_calls_def)
qed

theorem patch_invoked_once_success_line_iff_granted_witness:
  "GetGameVersion game_641 = 641 \<and> GetGameVersion game_641_refusing = 641 \<and>
   patch_calls (trace (snd (DisableNetworkConstructionAnimationSounds game_641 loaded_process))) =
     [OverwriteMemory_call 0x6071FC 0xEB] \<and>
   Line Info ''Disabled the network construction animation sounds.''
     \<in> set (new_lines loaded_process (snd (DisableNetworkConstructionAnimationSounds game_641 loaded_process))) \<and>
   patch_calls (trace (snd (DisableNetworkConstructionAnimationSounds game_641_refusing loaded_process))) =
     [OverwriteMemory_call 0x6071FC 0xEB] \<and>
   Line Info ''Disabled the network construction animation sounds.''
     \<notin> set (new_lines loaded_process (snd (DisableNetworkConstructionAnimationSounds game_641_refusing loaded_process)))"
proof -
  have v: "GetGameVersion game_641 = 641"
    by (simp add: game_641_def)
  have v': "GetGameVersion game_641_refusing = 641"
    by (simp add: game_641_refusing_def game_641_def)
  show ?thesis
    using v v' patch_invoked_once_success_line_iff_granted [OF v, of loaded_process]
      patch_invoked_once_success_line_iff_granted [OF v', of loaded_process]
    by (simp add: loaded_process_def game_641_def game_641_refusing_def patch_calls_def)
qed

subsection \<open>Page protection after the patch routine\<close>

lemma executable_RWX: "executable PAGE_EXECUTE_READWRITE"
  by (simp add: executable_def PAGE_EXECUTE_READWRITE_def)

text \<open>
  C5: \<open>OverwriteMemory\<close> never leaves the target page non-executable. The page holds
  live code, so it is executable before the call; after the call its protection includes
  execute permission whether the system granted the change or refused it: when granted the
  page is left \<open>PAGE_EXECUTE_READWRITE\<close>, writable and executable, and when refused the
  page protections are as they were.
\<close>

theorem OverwriteMemory_keeps_execute_permission:
  "(VirtualProtect_refusal env (mem s) (prot s) a sizeof_uint8 PAGE_EXECUTE_READWRITE = None \<longrightarrow>
      writable_executable (prot (snd (OverwriteMemory env a v s)) (page_of a)) \<and>
      executable (prot (snd (OverwriteMemory env a v s)) (page_of a))) \<and>
   (VirtualProtect_refusal env (mem s) (prot s) a sizeof_uint8 PAGE_EXECUTE_READWRITE \<noteq> None \<longrightarrow>
      prot (snd (OverwriteMemory env a v s)) = prot s) \<and>
   (executable (prot s (page_of a)) \<longrightarrow>
      executable (prot (snd (OverwriteMemory env a v s)) (page_of a)))"
proof (cases "VirtualProtect_refusal env (mem s) (prot s) a sizeof_uint8 PAGE_EXECUTE_READWRITE")
  case None
  then show ?thesis
    by (simp add: OverwriteMemory_granted [OF None] writable_executable_def executable_RWX)
next
  case (Some e)
  then show ?thesis
    by (simp add: OverwriteMemory_refused [OF Some])
qed

theorem OverwriteMemory_keeps_execute_permission_witness:
  "VirtualProtect_refusal game_641 (mem loaded_process) (prot loaded_process) 0x6071FC
     sizeof_uint8 PAGE_EXECUTE_READWRITE = None \<and>
   writable_executable (prot (snd (OverwriteMemory game_641 0x6071FC 0xEB loaded_process)) (page_of 0x6071FC)) \<and>
   VirtualProtect_refusal game_641_refusing (mem loaded_process) (prot loaded_process) 0x6071FC
     sizeof_uint8 PAGE_EXECUTE_READWRITE \<noteq> None \<and>
   prot (snd (OverwriteMemory game_641_refusing 0x6071FC 0xEB loaded_process)) = prot loaded_process \<and>
   executable (prot loaded_process (page_of 0x6071FC)) \<and>
   executable (prot (snd (OverwriteMemory game_641_refusing 0x6071FC 0xEB loaded_process)) (page_of 0x6071FC))"
proof -
  have g: "VirtualProtect_refusal game_641 (mem loaded_process) (prot loaded_process) 0x6071FC
     sizeof_uint8 PAGE_EXECUTE_READWRITE = None"
    by (simp add: game_641_def)
  have r: "VirtualProtect_refusal game_641_refusing (mem loaded_process) (prot loaded_process)
     0x6071FC sizeof_uint8 PAGE_EXECUTE_READWRITE \<noteq> None"
    by (simp add: game_641_refusing_def)
  have x: "executable (prot loaded_process (page_of 0x6071FC))"
    by (simp add: loaded_process_def executable_def PAGE_EXECUTE_READ_def)
  show ?thesis
    using g r x
      OverwriteMemory_keeps_execute_permission [of game_641 loaded_process "0x6071FC" "0xEB"]
      OverwriteMemory_keeps_execute_permission [of game_641_refusing loaded_process "0x6071FC" "0xEB"]
    by simp
qed

subsection \<open>The startup hook\<close>

lemma Disable_returns: "fst (DisableNetworkConstructionAnimationSounds env s) = Inr ()"
proof (cases "GetGameVersion env = 641")
  case True
  show ?thesis
  proof (cases "VirtualProtect_refusal env (mem s) (prot s) 0x6071FC sizeof_uint8 PAGE_EXECUTE_READWRITE")
    case None
    show ?thesis by (simp add: Disable_granted [OF True None])
  next
    case (Some e)
    show ?thesis by (simp add: Disable_refused [OF True Some])
  qed
next
  case False
  then show ?thesis by (simp add: Disable_mismatch)
qed

lemma OnStart_result: "OnStart env s = (Inr True, snd (DisableNetworkConstructionAnimationSounds env s))"
  using Disable_returns [of env s]
  by (cases "DisableNetworkConstructionAnimationSounds env s")
    (simp add: OnStart_def bind_def return_def)

text \<open>
  C6: no exception leaves \<open>DisableNetworkConstructionAnimationSounds\<close> or \<open>OnStart\<close>,
  whatever the detected version and whatever the system decides on the protection change:
  neither ever ends in a throw.
\<close>

theorem nothing_propagates_out_of_OnStart:
  "fst (DisableNetworkConstructionAnimationSounds env s) \<noteq> Inl e \<and>
   fst (OnStart env s) \<noteq> Inl e"
  by (simp add: Disable_returns OnStart_result)

text \<open>
  C10: \<open>OnStart\<close> returns \<open>true\<close> in every case: patch applied, version mismatch, or
  protection change refused.
\<close>

theorem OnStart_returns_true: "fst (OnStart env s) = Inr True"
  by (simp add: OnStart_result)

subsection \<open>Patching twice\<close>

lemma OverwriteMemory_twice:
  "mem (snd (OverwriteMemory env a v (snd (OverwriteMemory env a v s)))) =
     mem (snd (OverwriteMemory env a v s)) \<and>
   prot (snd (OverwriteMemory env a v (snd (OverwriteMemory env a v s)))) =
     prot (snd (OverwriteMemory env a v s))"
proof (cases "VirtualProtect_refusal env (mem s) (prot s) a sizeof_uint8 PAGE_EXECUTE_READWRITE")
  case first: None
  let ?s1 = "snd (OverwriteMemory env a v s)"
  have s1: "mem ?s1 = (mem s)(a := v)" "prot ?s1 = (prot s)(page_of a := PAGE_EXECUTE_READWRITE)"
    by (simp_all add: OverwriteMemory_granted [OF first])
  show ?thesis
  proof (cases "VirtualProtect_refusal env (mem ?s1) (prot ?s1) a sizeof_uint8 PAGE_EXECUTE_READWRITE")
    case None
    show ?thesis
      by (simp add: OverwriteMemory_granted [OF None] s1)
  next
    case (Some e)
    show ?thesis
      by (simp add: OverwriteMemory_refused [OF Some])
  qed
next
  case first: (Some e)
  let ?s1 = "snd (OverwriteMemory env a v s)"
  have s1: "mem ?s1 = mem s" "prot ?s1 = prot s"
    by (simp_all add: OverwriteMemory_refused [OF first])
  have again: "VirtualProtect_refusal env (mem ?s1) (prot ?s1) a sizeof_uint8 PAGE_EXECUTE_READWRITE = Some e"
    by (simp add: s1 first)
  show ?thesis
    by (simp add: OverwriteMemory_refused [OF again])
qed

text \<open>
  C8: calling \<open>OverwriteMemory\<close> with \<open>0x6071FC\<close> and \<open>0xEB\<close> a second time leaves
  the memory exactly as the first call left it.
\<close>

theorem patch_is_idempotent:
  "mem (snd (OverwriteMemory env 0x6071FC 0xEB (snd (OverwriteMemory env 0x6071FC 0xEB s)))) =
     mem (snd (OverwriteMemory env 0x6071FC 0xEB s))"
  by (simp add: OverwriteMemory_twice)

subsection \<open>The constructor\<close>

lemma director_constructed:
  "DisableNetworkConstructionSoundsDllDirector env s =
    (Inr (), s\<lparr>logger := \<lparr>logFilePath = path_append (parent_path (GetModuleFileNameW env))
                                            (path_of_name PluginLogFileName),
                            logLevel = Error, appendMode = False\<rparr>,
               log_file := log_file s @
                 [Header (''SC4DisableNetworkConstructionSounds v'' @ PLUGIN_VERSION_STR env)]\<rparr>)"
  by (simp add: DisableNetworkConstructionSoundsDllDirector_def GetDllFolderPath_def
      Logger_Init_def WriteLogFileHeader_def bind_def return_def)

text \<open>For the example game, the logger is given the log file's path beside the DLL.\<close>

lemma director_log_path_example:
  "logFilePath (logger (snd (DisableNetworkConstructionSoundsDllDirector game_641 loaded_process))) =
     \<lparr>root_name = ''C:'', root_directory = True,
      relative_path = [''SimCity 4'', ''Plugins'', ''SC4DisableNetworkConstructionSounds.log'']\<rparr>"
  by (simp add: director_constructed game_641_def parent_path_def path_append_def
      path_of_name_def is_absolute_def PluginLogFileName_def)

subsection \<open>The life of the process\<close>

lemma RZGetCOMDllDirector_keeps:
  "trace (snd (RZGetCOMDllDirector env s)) = trace s \<and>
   mem (snd (RZGetCOMDllDirector env s)) = mem s"
  by (simp add: RZGetCOMDllDirector_def director_constructed bind_def return_def)

lemma OnStart_stores:
  "stores_at a (trace (snd (OnStart env s))) \<le> Suc (stores_at a (trace s))"
proof (cases "GetGameVersion env = 641")
  case True
  show ?thesis
  proof (cases "VirtualProtect_refusal env (mem s) (prot s) 0x6071FC sizeof_uint8 PAGE_EXECUTE_READWRITE")
    case None
    show ?thesis by (simp add: OnStart_result Disable_granted [OF True None] stores_at_def)
  next
    case (Some e)
    show ?thesis by (simp add: OnStart_result Disable_refused [OF True Some] stores_at_def)
  qed
next
  case False
  then show ?thesis by (simp add: OnStart_result Disable_mismatch)
qed

lemma OnStart_mismatch:
  assumes "GetGameVersion env \<noteq> 641"
  shows "trace (snd (OnStart env s)) = trace s \<and> mem (snd (OnStart env s)) = mem s"
  by (simp add: OnStart_result Disable_mismatch [OF assms])

lemma host_step_stores:
  "stores_at a (trace (host_step env s c)) \<le>
     stores_at a (trace s) + (if c = Start then 1 else 0)"
  using OnStart_stores [of a env s]
  by (cases c) (simp_all add: host_step_def RZGetCOMDllDirector_keeps)

lemma host_run_stores:
  "stores_at a (trace (host_run env calls s)) \<le> stores_at a (trace s) + starts calls"
proof (induction calls arbitrary: s)
  case Nil
  show ?case by (simp add: host_run_def starts_def)
next
  case (Cons c calls)
  have "stores_at a (trace (host_run env (c # calls) s)) =
        stores_at a (trace (host_run env calls (host_step env s c)))"
    by (simp add: host_run_def)
  also have "\<dots> \<le> stores_at a (trace (host_step env s c)) + starts calls"
    by (rule Cons.IH)
  also have "\<dots> \<le> stores_at a (trace s) + (if c = Start then 1 else 0) + starts calls"
    using host_step_stores [of a env s c] by simp
  also have "\<dots> = stores_at a (trace s) + starts (c # calls)"
    by (simp add: starts_def)
  finally show ?case .
qed

lemma host_step_mismatch:
  assumes "GetGameVersion env \<noteq> 641"
  shows "trace (host_step env s c) = trace s \<and> mem (host_step env s c) = mem s"
  by (cases c) (simp_all add: host_step_def RZGetCOMDllDirector_keeps OnStart_mismatch [OF assms])

lemma host_run_mismatch:
  assumes "GetGameVersion env \<noteq> 641"
  shows "trace (host_run env calls s) = trace s \<and> mem (host_run env calls s) = mem s"
proof (induction calls arbitrary: s)
  case Nil
  show ?case by (simp add: host_run_def)
next
  case (Cons c calls)
  have "host_run env (c # calls) s = host_run env calls (host_step env s c)"
    by (simp add: host_run_def)
  then show ?case
    by (simp add: Cons.IH host_step_mismatch [OF assms])
qed

lemma run_641:
  "trace (host_run game_641 [GetDirector, GetDirector, Start] loaded_process) =
     [OverwriteMemory_call 0x6071FC 0xEB,
      VirtualProtect_call 0x6071FC 1 PAGE_EXECUTE_READWRITE,
      Store 0x6071FC 0xEB]"
  by (simp add: host_run_def host_step_def RZGetCOMDllDirector_def director_constructed
      bind_def return_def OnStart_result Disable_granted game_641_def loaded_process_def
      sizeof_uint8_def)

lemma run_641_two_starts:
  "trace (host_run game_641 [GetDirector, Start, Start] loaded_process) =
     [OverwriteMemory_call 0x6071FC 0xEB,
      VirtualProtect_call 0x6071FC 1 PAGE_EXECUTE_READWRITE,
      Store 0x6071FC 0xEB,
      OverwriteMemory_call 0x6071FC 0xEB,
      VirtualProtect_call 0x6071FC 1 PAGE_EXECUTE_READWRITE,
      Store 0x6071FC 0xEB]"
  by (simp add: host_run_def host_step_def RZGetCOMDllDirector_def director_constructed
      bind_def return_def OnStart_result Disable_granted game_641_def loaded_process_def
      sizeof_uint8_def)

text \<open>
  C7, as stated, fails on "at most once": \<open>OnStart\<close> keeps no record that the patch has
  been applied, and the function-local static guards only the constructor. When the host
  calls \<open>OnStart\<close> twice on a game of version 641, the byte at \<open>0x6071FC\<close> is written
  twice.
\<close>

theorem second_start_patches_again:
  "stores_at 0x6071FC (trace (host_run game_641 [GetDirector, Start, Start] loaded_process)) = 2"
  by (simp add: run_641_two_starts stores_at_def)

text \<open>
  C7, amended: over any life of the process, the byte at \<open>0x6071FC\<close> is written at most
  once for each call of \<open>OnStart\<close> that the host makes, however often it asks for the
  director; and when the detected version is not 641, it is never written and the memory
  never changes, whatever calls the host makes.
\<close>

theorem patched_at_most_once_per_start_and_only_on_641:
  "stores_at 0x6071FC (trace (host_run env calls s)) \<le>
     stores_at 0x6071FC (trace s) + starts calls \<and>
   (GetGameVersion env \<noteq> 641 \<longrightarrow>
      stores_at 0x6071FC (trace (host_run env calls s)) = stores_at 0x6071FC (trace s) \<and>
      mem (host_run env calls s) = mem s)"
  by (simp add: host_run_stores host_run_mismatch)

theorem patched_at_most_once_per_start_and_only_on_641_witness:
  "starts [GetDirector, GetDirector, Start] = 1 \<and>
   stores_at 0x6071FC (trace (host_run game_641 [GetDirector, GetDirector, Start] loaded_process)) \<le> 1 \<and>
   GetGameVersion game_640 \<noteq> 641 \<and>
   stores_at 0x6071FC (trace (host_run game_640 [GetDirector, Start, Start] loaded_process)) = 0 \<and>
   mem (host_run game_640 [GetDirector, Start, Start] loaded_process) 0x6071FC = 0x74"
proof -
  have n: "starts [GetDirector, GetDirector, Start] = 1"
    by (simp add: starts_def)
  have v: "GetGameVersion game_640 \<noteq> 641"
    by (simp add: game_640_def game_641_def)
  have t: "stores_at 0x6071FC (trace loaded_process) = 0" "mem loaded_process 0x6071FC = 0x74"
    by (simp_all add: loaded_process_def stores_at_def)
  show ?thesis
    using n v t
      patched_at_most_once_per_start_and_only_on_641
        [where env = game_641 and calls = "[GetDirector, GetDirector, Start]" and s = loaded_process]
      patched_at_most_once_per_start_and_only_on_641
        [where env = game_640 and calls = "[GetDirector, Start, Start]" and s = loaded_process]
    by simp
qed

end
